theory Spec2Isabelle
  imports Main "HOL-Library.Sublist"
begin

section \<open>Data model\<close>

text \<open>
  ObjectIds are handled by the routes as their hexadecimal strings (\<open>req.user.id\<close>,
  \<open>req.params.id\<close>); dates are milliseconds since the epoch. Roles and document statuses
  are the strings of the schemas' enums, compared with \<open>===\<close> in the source. A string
  is a JavaScript string whose characters have codes below 256.
\<close>

type_synonym oid = string
type_synonym date = nat

text \<open>What \<open>res.status(code).json({success, error, message})\<close> sends.\<close>

record response =
  res_status :: nat
  res_success :: bool
  res_error :: "string option"
  res_message :: "string option"

definition json_error :: "nat \<Rightarrow> string \<Rightarrow> response" where
  "json_error code msg =
     \<lparr>res_status = code, res_success = False, res_error = Some msg, res_message = None\<rparr>"

definition json_success :: "nat \<Rightarrow> string \<Rightarrow> response" where
  "json_success code msg =
     \<lparr>res_status = code, res_success = True, res_error = None, res_message = Some msg\<rparr>"

text \<open>
  An Express middleware either answers the request itself or calls \<open>next()\<close>, handing
  what it attached to the request (\<open>req.user\<close>, \<open>req.resource\<close>, \<open>req.file\<close>) to the
  rest of the chain.
\<close>

datatype 'a step = Respond response | Next 'a

text \<open>models/User.js\<close>

record user =
  u_id :: oid
  u_name :: string
  u_email :: string
  u_password :: string
  u_role :: string
  u_department :: "string option"
  u_lastLogin :: "date option"
  u_isActive :: bool

text \<open>models/Document.js (the \<open>metadata\<close> blob and the three counters are left out).\<close>

record permissions =
  p_read :: "oid list"
  p_write :: "oid list"
  p_delete :: "oid list"

record document =
  d_id :: oid
  d_title :: string
  d_description :: "string option"
  d_fileName :: string
  d_originalName :: string
  d_filePath :: string
  d_fileSize :: nat
  d_mimeType :: string
  d_fileExtension :: string
  d_category :: oid
  d_tags :: "string list"
  d_uploadedBy :: oid
  d_department :: "string option"
  d_version :: nat
  d_status :: string
  d_approvedBy :: "oid option"
  d_approvedAt :: "date option"
  d_rejectionReason :: "string option"
  d_expiryDate :: "date option"
  d_isPublic :: bool
  d_permissions :: permissions
  d_isActive :: bool
  d_isDeleted :: bool
  d_deletedAt :: "date option"
  d_deletedBy :: "oid option"

text \<open>
  A collection is the list of its documents; \<open>Model.findById\<close> returns the first one with
  the id, \<open>null\<close> (\<open>None\<close>) when there is none.
\<close>

definition findById :: "('a \<Rightarrow> oid) \<Rightarrow> 'a list \<Rightarrow> oid \<Rightarrow> 'a option" where
  "findById key coll i = find (\<lambda>x. key x = i) coll"

text \<open>\<open>String.prototype.split\<close> with a one-character separator.\<close>

fun split_on :: "char \<Rightarrow> string \<Rightarrow> string list" where
  "split_on c [] = [[]]"
| "split_on c (x # xs) =
     (if x = c then [] # split_on c xs
      else (case split_on c xs of
              [] \<Rightarrow> [[x]]
            | w # ws \<Rightarrow> (x # w) # ws))"

section \<open>middleware/auth.js\<close>

subsection \<open>protect\<close>

text \<open>The payload \<open>getSignedJwtToken\<close> signs: \<open>{ id, role }\<close>.\<close>

record jwt_payload =
  jwt_id :: oid
  jwt_role :: string

text \<open>
  The token is the second space-separated piece of an \<open>Authorization\<close> header that starts
  with \<open>Bearer\<close>; \<open>undefined\<close> and the empty string are both falsy for \<open>if (!token)\<close>.
\<close>

definition bearer_token :: "string option \<Rightarrow> string option" where
  "bearer_token authorization =
     (case authorization of
        None \<Rightarrow> None
      | Some h \<Rightarrow>
          if prefix ''Bearer'' h
          then (case split_on CHR '' '' h of
                  _ # t # _ \<Rightarrow> if t = [] then None else Some t
                | _ \<Rightarrow> None)
          else None)"

text \<open>
  \<open>jwt.verify\<close> belongs to the jsonwebtoken library: it is a parameter that returns the
  payload of a validly signed, unexpired token and \<open>None\<close> where the library throws (the
  \<open>catch\<close> branch of \<open>protect\<close>).
\<close>

definition protect ::
  "(string \<Rightarrow> jwt_payload option) \<Rightarrow> user list \<Rightarrow> string option \<Rightarrow> user step" where
  "protect jwt_verify users authorization =
     (case bearer_token authorization of
        None \<Rightarrow> Respond (json_error 401 ''Not authorized to access this route'')
      | Some token \<Rightarrow>
          (case jwt_verify token of
             None \<Rightarrow> Respond (json_error 401 ''Not authorized to access this route'')
           | Some decoded \<Rightarrow>
               (case findById u_id users (jwt_id decoded) of
                  None \<Rightarrow> Respond (json_error 401 ''No user found with this token'')
                | Some u \<Rightarrow>
                    if \<not> u_isActive u
                    then Respond (json_error 401 ''User account is deactivated'')
                    else Next u)))"

text \<open>
  A route mounted behind \<open>protect\<close>: the handler and its effect on the store run only
  when \<open>protect\<close> called \<open>next()\<close>.
\<close>

definition protected_route ::
  "(string \<Rightarrow> jwt_payload option) \<Rightarrow> user list \<Rightarrow> string option \<Rightarrow>
   (user \<Rightarrow> 's \<Rightarrow> response \<times> 's) \<Rightarrow> 's \<Rightarrow> response \<times> 's" where
  "protected_route jwt_verify users authorization handler s =
     (case protect jwt_verify users authorization of
        Respond r \<Rightarrow> (r, s)
      | Next u \<Rightarrow> handler u s)"

subsection \<open>authorize\<close>

definition authorize :: "string list \<Rightarrow> user \<Rightarrow> user step" where
  "authorize roles u =
     (if u_role u \<notin> set roles
      then Respond (json_error 403
             (''User role '' @ u_role u @ '' is not authorized to access this route''))
      else Next u)"

subsection \<open>checkOwnership\<close>

text \<open>\<open>this.permissions[permission]\<close>: the schema declares exactly three lists.\<close>

definition permission_list :: "permissions \<Rightarrow> string \<Rightarrow> oid list option" where
  "permission_list p permission =
     (if permission = ''read'' then Some (p_read p)
      else if permission = ''write'' then Some (p_write p)
      else if permission = ''delete'' then Some (p_delete p)
      else None)"

text \<open>\<open>documentSchema.methods.hasPermission\<close>\<close>

definition hasPermission :: "document \<Rightarrow> oid \<Rightarrow> string \<Rightarrow> bool" where
  "hasPermission doc userId permission =
     (if d_uploadedBy doc = userId then True
      else (case permission_list (d_permissions doc) permission of
              Some l \<Rightarrow> userId \<in> set l
            | None \<Rightarrow> False))"

text \<open>
  \<open>checkOwnership(Document)\<close>. A document's owner field is \<open>uploadedBy\<close>, which the schema
  requires, so \<open>resource.uploadedBy || resource.createdBy || resource.user\<close> is
  \<open>uploadedBy\<close>. The permission asked of \<open>hasPermission\<close> is the literal \<open>'read'\<close>.
\<close>

definition checkOwnership :: "document list \<Rightarrow> user \<Rightarrow> oid \<Rightarrow> document step" where
  "checkOwnership documents u resourceId =
     (case findById d_id documents resourceId of
        None \<Rightarrow> Respond (json_error 404 ''Resource not found'')
      | Some resource \<Rightarrow>
          if u_role u = ''admin'' \<or> u_role u = ''manager'' then Next resource
          else if d_uploadedBy resource = u_id u then Next resource
          else if hasPermission resource (u_id u) ''read'' then Next resource
          else Respond (json_error 403 ''Not authorized to access this resource''))"

text \<open>
  The three resource-scoped document routes, \<open>GET /:id\<close>, \<open>PUT /:id\<close> and
  \<open>DELETE /:id\<close>, each mount \<open>checkOwnership(Document)\<close> as their gate.
\<close>

datatype doc_operation = ReadDoc | UpdateDoc | DeleteDoc

fun document_gate :: "doc_operation \<Rightarrow> document list \<Rightarrow> user \<Rightarrow> oid \<Rightarrow> document step" where
  "document_gate ReadDoc = checkOwnership"
| "document_gate UpdateDoc = checkOwnership"
| "document_gate DeleteDoc = checkOwnership"

text \<open>The capability the specification associates with each operation.\<close>

fun capability :: "doc_operation \<Rightarrow> string" where
  "capability ReadDoc = ''read''"
| "capability UpdateDoc = ''write''"
| "capability DeleteDoc = ''delete''"

section \<open>models/User.js\<close>

text \<open>
  \<open>bcrypt.hash\<close>, \<open>bcrypt.genSalt\<close> and \<open>bcrypt.compare\<close> belong to bcryptjs: the hash
  function, the generated salt and the comparison are parameters.

  \<open>userSchema.pre('save')\<close>. Its first statement is
  \<^verbatim>\<open>if (!this.isModified('password')) { next(); }\<close>
  with no \<open>return\<close>: after calling \<open>next()\<close> the function goes on to the two statements
  that hash \<open>this.password\<close>, and calls \<open>next()\<close> once more. The model runs the body as
  written: it returns the document as the hook leaves it, and the document as it was at
  each call of \<open>next()\<close>, in order. \<open>password_modified\<close> is \<open>this.isModified('password')\<close>.
\<close>

definition user_pre_save ::
  "(string \<Rightarrow> string \<Rightarrow> string) \<Rightarrow> string \<Rightarrow> bool \<Rightarrow> user \<Rightarrow> user \<times> user list" where
  "user_pre_save bcrypt_hash salt password_modified this =
     (let early = (if \<not> password_modified then [this] else []);
          this' = this\<lparr>u_password := bcrypt_hash (u_password this) salt\<rparr>
      in (this', early @ [this']))"

definition matchPassword :: "(string \<Rightarrow> string \<Rightarrow> bool) \<Rightarrow> user \<Rightarrow> string \<Rightarrow> bool" where
  "matchPassword bcrypt_compare this enteredPassword =
     bcrypt_compare enteredPassword (u_password this)"

text \<open>
  \<open>doc.save()\<close> of an existing document replaces the stored document that has its id.
  Mongoose goes on with the save when the hook first calls \<open>next()\<close> and ignores further
  calls, so what is written is the document as it was at the first call.
\<close>

definition replace_by_id :: "('a \<Rightarrow> oid) \<Rightarrow> 'a \<Rightarrow> 'a list \<Rightarrow> 'a list" where
  "replace_by_id key x coll = map (\<lambda>y. if key y = key x then x else y) coll"

definition user_save ::
  "(string \<Rightarrow> string \<Rightarrow> string) \<Rightarrow> string \<Rightarrow> bool \<Rightarrow> user \<Rightarrow> user list \<Rightarrow> user list" where
  "user_save bcrypt_hash salt password_modified this users =
     (case snd (user_pre_save bcrypt_hash salt password_modified this) of
        [] \<Rightarrow> users
      | written # _ \<Rightarrow> replace_by_id u_id written users)"

section \<open>models/AuditLog.js\<close>

record auditLogEntry =
  al_user :: oid
  al_action :: string
  al_resource :: string
  al_resourceId :: string
  al_statusCode :: nat
  al_responseSuccess :: "bool option"
  al_ipAddress :: string
  al_userAgent :: string
  al_sessionId :: string
  al_status :: string
  al_errorMessage :: "string option"
  al_duration :: nat
  al_timestamp :: date

text \<open>
  \<open>auditLogSchema.statics.logAction\<close>: builds the entry and saves it; a failure of the
  save (schema validation, ObjectId cast, the database) is caught and \<open>null\<close> is
  returned. Whether Mongoose accepts and writes the entry is the parameter \<open>persist\<close>.
\<close>

definition logAction ::
  "(auditLogEntry \<Rightarrow> bool) \<Rightarrow> auditLogEntry \<Rightarrow> auditLogEntry list \<Rightarrow> auditLogEntry list" where
  "logAction persist entry logs = (if persist entry then logs @ [entry] else logs)"

subsection \<open>auditLog (middleware/auth.js)\<close>

text \<open>
  What the audit middleware reads from the request as it arrives. \<open>req.user\<close> is not
  part of it: it is \<open>undefined\<close> unless a middleware earlier in the chain (\<open>protect\<close>)
  has assigned it, and is passed separately.
\<close>

record request =
  req_params_id :: "string option"
  req_body_id :: "string option"
  req_ip :: "string option"
  req_remoteAddress :: "string option"
  req_userAgent :: "string option"
  req_sessionID :: "string option"

text \<open>JavaScript's \<open>a || b || ... || d\<close> over strings: \<open>undefined\<close> and \<open>''\<close> are falsy.\<close>

fun first_truthy :: "string option list \<Rightarrow> string \<Rightarrow> string" where
  "first_truthy [] d = d"
| "first_truthy (None # xs) d = first_truthy xs d"
| "first_truthy (Some v # xs) d = (if v = [] then first_truthy xs d else v)"

text \<open>
  The \<open>res.on('finish')\<close> callback of \<open>auditLog(action, resource)\<close>. \<open>req_user\<close> is
  \<open>req.user\<close>; \<open>responseData\<close> is what the wrapped \<open>res.json\<close> captured (\<open>None\<close> when the
  handler never called it, the status code then stays 200).
\<close>

definition auditLog_finish ::
  "(auditLogEntry \<Rightarrow> bool) \<Rightarrow> string \<Rightarrow> string \<Rightarrow> user option \<Rightarrow> request \<Rightarrow>
   response option \<Rightarrow> nat \<Rightarrow> date \<Rightarrow> auditLogEntry list \<Rightarrow> auditLogEntry list" where
  "auditLog_finish persist action resource req_user req responseData duration now logs =
     (let statusCode = (case responseData of None \<Rightarrow> 200 | Some r \<Rightarrow> res_status r);
          status = (if statusCode \<ge> 400 then ''failure'' else ''success'')
      in if req_user = None \<and> action \<notin> set [''login'', ''user_create''] then logs
         else
           let userId = map_option u_id req_user;
               resourceId = first_truthy [req_params_id req, req_body_id req, userId] ''system''
           in (case userId of
                 None \<Rightarrow> logs
               | Some uid \<Rightarrow>
                   if uid \<noteq> [] \<and> resourceId \<noteq> []
                   then logAction persist
                          \<lparr>al_user = uid, al_action = action, al_resource = resource,
                           al_resourceId = resourceId, al_statusCode = statusCode,
                           al_responseSuccess = map_option res_success responseData,
                           al_ipAddress =
                             first_truthy [req_ip req, req_remoteAddress req] ''127.0.0.1'',
                           al_userAgent = first_truthy [req_userAgent req] ''Unknown'',
                           al_sessionId = first_truthy [req_sessionID req] ''no-session'',
                           al_status = status,
                           al_errorMessage =
                             (if status = ''failure''
                              then (case responseData of None \<Rightarrow> None | Some r \<Rightarrow> res_error r)
                              else None),
                           al_duration = duration, al_timestamp = now\<rparr>
                          logs
                   else logs))"

section \<open>routes/auth.js\<close>

record login_body =
  lb_email :: string
  lb_password :: string

text \<open>The handler of \<open>POST /api/auth/login\<close> (the signed token of the answer is left out).\<close>

definition login_handler ::
  "(string \<Rightarrow> string \<Rightarrow> bool) \<Rightarrow> (string \<Rightarrow> string \<Rightarrow> string) \<Rightarrow> string \<Rightarrow> date \<Rightarrow>
   login_body \<Rightarrow> user list \<Rightarrow> response \<times> user list" where
  "login_handler bcrypt_compare bcrypt_hash salt now body users =
     (case find (\<lambda>u. u_email u = lb_email body) users of
        None \<Rightarrow> (json_error 401 ''Invalid credentials'', users)
      | Some u \<Rightarrow>
          if \<not> u_isActive u
          then (json_error 401 ''Account is deactivated. Please contact administrator'', users)
          else if \<not> matchPassword bcrypt_compare u (lb_password body)
          then (json_error 401 ''Invalid credentials'', users)
          else (json_success 200 ''Login successful'',
                user_save bcrypt_hash salt False (u\<lparr>u_lastLogin := Some now\<rparr>) users))"

text \<open>
  The chain of the route: \<open>rateLimitSensitive\<close>, \<open>validateRequest(loginValidation)\<close>,
  \<open>auditLog('login', 'user')\<close>, the handler. The limiter and express-validator are
  libraries: whether they let the request pass is given (\<open>rate_ok\<close>, \<open>rules_ok\<close>); the
  audit middleware is mounted after them. The route is not behind \<open>protect\<close> and the
  handler keeps the user it finds in a local variable, so \<open>req.user\<close> is \<open>undefined\<close>
  when the audit callback runs.
\<close>

definition login_route ::
  "(auditLogEntry \<Rightarrow> bool) \<Rightarrow> (string \<Rightarrow> string \<Rightarrow> bool) \<Rightarrow> (string \<Rightarrow> string \<Rightarrow> string) \<Rightarrow> string \<Rightarrow>
   bool \<Rightarrow> bool \<Rightarrow> request \<Rightarrow> login_body \<Rightarrow> nat \<Rightarrow> date \<Rightarrow>
   user list \<times> auditLogEntry list \<Rightarrow> response \<times> user list \<times> auditLogEntry list" where
  "login_route persist bcrypt_compare bcrypt_hash salt rate_ok rules_ok req body duration now s =
     (if \<not> rate_ok
      then (json_error 429 ''Too many attempts, please try again later'', s)
      else if \<not> rules_ok
      then (json_error 400 ''Validation failed'', s)
      else
        (case login_handler bcrypt_compare bcrypt_hash salt now body (fst s) of
           (r, users') \<Rightarrow>
             (r, users',
              auditLog_finish persist ''login'' ''user'' None req (Some r) duration now (snd s))))"

section \<open>models/Category.js\<close>

text \<open>
  The fields the routes below read or write (\<open>icon\<close>, \<open>color\<close>, \<open>approvers\<close> and the
  category's own permission lists are left out). An unset slug is the empty string:
  \<open>!this.slug\<close> holds for both.
\<close>

record category =
  c_id :: oid
  c_name :: string
  c_description :: "string option"
  c_slug :: string
  c_parent :: "oid option"
  c_level :: nat
  c_path :: string
  allowedFileTypes :: "string list"
  maxFileSize :: nat
  requiresApproval :: bool
  documentCount :: nat
  c_isActive :: bool
  c_createdBy :: oid

subsection \<open>Strings: lower case, decimal numerals, the slug of a name\<close>

text \<open>
  \<open>toLowerCase\<close> on characters below 256: the letters \<open>A\<close> to \<open>Z\<close>, and the accented
  capitals U+00C0 to U+00DE (without the multiplication sign U+00D7), each 32 below its
  small letter.
\<close>

definition upper_letters :: string where
  "upper_letters =
     ''ABCDEFGHIJKLMNOPQRSTUVWXYZ''
       @ [CHR 0xC0, CHR 0xC1, CHR 0xC2, CHR 0xC3, CHR 0xC4, CHR 0xC5, CHR 0xC6, CHR 0xC7,
           CHR 0xC8, CHR 0xC9, CHR 0xCA, CHR 0xCB, CHR 0xCC, CHR 0xCD, CHR 0xCE, CHR 0xCF,
           CHR 0xD0, CHR 0xD1, CHR 0xD2, CHR 0xD3, CHR 0xD4, CHR 0xD5, CHR 0xD6, CHR 0xD8,
           CHR 0xD9, CHR 0xDA, CHR 0xDB, CHR 0xDC, CHR 0xDD, CHR 0xDE]"

definition lower_letters :: string where
  "lower_letters =
     ''abcdefghijklmnopqrstuvwxyz''
       @ [CHR 0xE0, CHR 0xE1, CHR 0xE2, CHR 0xE3, CHR 0xE4, CHR 0xE5, CHR 0xE6, CHR 0xE7,
           CHR 0xE8, CHR 0xE9, CHR 0xEA, CHR 0xEB, CHR 0xEC, CHR 0xED, CHR 0xEE, CHR 0xEF,
           CHR 0xF0, CHR 0xF1, CHR 0xF2, CHR 0xF3, CHR 0xF4, CHR 0xF5, CHR 0xF6, CHR 0xF8,
           CHR 0xF9, CHR 0xFA, CHR 0xFB, CHR 0xFC, CHR 0xFD, CHR 0xFE]"

definition to_lower_char :: "char \<Rightarrow> char" where
  "to_lower_char c =
     (case map_of (zip upper_letters lower_letters) c of
        Some l \<Rightarrow> l
      | None \<Rightarrow> c)"

definition toLowerCase :: "string \<Rightarrow> string" where
  "toLowerCase s = map to_lower_char s"

text \<open>A number inside a template string: its decimal numeral.\<close>

definition digit_char :: "nat \<Rightarrow> char" where
  "digit_char d = ''0123456789'' ! d"

function show_nat :: "nat \<Rightarrow> string" where
  "show_nat n =
     (if n < 10 then [digit_char n] else show_nat (n div 10) @ [digit_char (n mod 10)])"
  by pat_completeness auto
termination
  by (relation "measure id") auto

declare show_nat.simps [simp del]

definition digit_val :: "char \<Rightarrow> nat" where
  "digit_val c = of_char c - 48"

definition read_nat :: "string \<Rightarrow> nat" where
  "read_nat s = foldl (\<lambda>acc c. 10 * acc + digit_val c) 0 s"

text \<open>
  \<open>name.toLowerCase().replace(/[^a-z0-9]/g, '-').replace(/-+/g, '-').replace(/^-|-$/g, '')\<close>
\<close>

definition slug_char :: "char \<Rightarrow> char" where
  "slug_char c =
     (if c \<in> set ''abcdefghijklmnopqrstuvwxyz0123456789'' then c else CHR ''-'')"

fun collapse_dashes :: "string \<Rightarrow> string" where
  "collapse_dashes (a # b # xs) =
     (if a = CHR ''-'' \<and> b = CHR ''-'' then collapse_dashes (b # xs)
      else a # collapse_dashes (b # xs))"
| "collapse_dashes xs = xs"

definition trim_dash :: "string \<Rightarrow> string" where
  "trim_dash s =
     (let s1 = (case s of [] \<Rightarrow> s | c # r \<Rightarrow> if c = CHR ''-'' then r else s)
      in if s1 \<noteq> [] \<and> last s1 = CHR ''-'' then butlast s1 else s1)"

definition slugify :: "string \<Rightarrow> string" where
  "slugify name = trim_dash (collapse_dashes (map slug_char (toLowerCase name)))"

subsection \<open>The pre-save hook\<close>

text \<open>\<open>findOne({ slug: slug, _id: { $ne: this._id } })\<close> finds a category.\<close>

definition slug_taken :: "category list \<Rightarrow> oid \<Rightarrow> string \<Rightarrow> bool" where
  "slug_taken cats self slug =
     (find (\<lambda>c. c_slug c = slug \<and> c_id c \<noteq> self) cats \<noteq> None)"

text \<open>
  The \<open>while (true)\<close> loop that makes the slug unique ends: the candidates
  \<open>base-1\<close>, \<open>base-2\<close>, ... are pairwise different and the collection is finite.
\<close>

lemma digit_val_digit_char: "d < 10 \<Longrightarrow> digit_val (digit_char d) = d"
proof -
  assume "d < 10"
  then have "d = 0 \<or> d = 1 \<or> d = 2 \<or> d = 3 \<or> d = 4 \<or> d = 5 \<or> d = 6 \<or> d = 7 \<or> d = 8 \<or> d = 9"
    by arith
  then show ?thesis
    by (auto simp: digit_val_def digit_char_def)
qed

lemma read_nat_show_nat: "read_nat (show_nat n) = n"
proof (induction n rule: show_nat.induct)
  case (1 n)
  show ?case
  proof (cases "n < 10")
    case True
    then show ?thesis
      by (subst show_nat.simps) (simp add: read_nat_def digit_val_digit_char)
  next
    case False
    with 1 have "read_nat (show_nat (n div 10)) = n div 10"
      by simp
    with False show ?thesis
      by (subst show_nat.simps) (simp add: read_nat_def digit_val_digit_char)
  qed
qed

lemma inj_show_nat: "inj show_nat"
  by (rule inj_on_inverseI [where g = read_nat]) (rule read_nat_show_nat)

lemma finite_slug_taken:
  "finite {n. slug_taken cats self (baseSlug @ ''-'' @ show_nat n)}"
proof -
  let ?f = "\<lambda>n. baseSlug @ ''-'' @ show_nat n"
  have inj: "inj ?f"
    using inj_show_nat by (auto simp: inj_def)
  have "{n. slug_taken cats self (?f n)} \<subseteq> ?f -` (c_slug ` set cats)"
  proof
    fix n assume "n \<in> {n. slug_taken cats self (?f n)}"
    then obtain c where "c \<in> set cats" "c_slug c = ?f n"
      by (auto simp: slug_taken_def find_None_iff)
    then have "?f n \<in> c_slug ` set cats"
      by (metis imageI)
    then show "n \<in> ?f -` (c_slug ` set cats)"
      by simp
  qed
  moreover have "finite (?f -` (c_slug ` set cats))"
    by (rule finite_vimageI [OF _ inj]) simp
  ultimately show ?thesis
    by (rule finite_subset)
qed

function unique_slug :: "category list \<Rightarrow> oid \<Rightarrow> string \<Rightarrow> string \<Rightarrow> nat \<Rightarrow> string" where
  "unique_slug cats self baseSlug slug counter =
     (if slug_taken cats self slug
      then unique_slug cats self baseSlug (baseSlug @ ''-'' @ show_nat counter) (counter + 1)
      else slug)"
  by pat_completeness auto
termination
proof (relation "measure (\<lambda>(cats, self, baseSlug, slug, counter).
          (if slug_taken cats self slug then 1 else 0)
          + card {n. counter \<le> n \<and> slug_taken cats self (baseSlug @ ''-'' @ show_nat n)})")
  show "wf (measure (\<lambda>(cats, self, baseSlug, slug, counter).
          (if slug_taken cats self slug then 1 else 0)
          + card {n. counter \<le> n \<and> slug_taken cats self (baseSlug @ ''-'' @ show_nat n)}))"
    by simp
next
  fix cats :: "category list" and self baseSlug slug :: string and counter :: nat
  assume taken: "slug_taken cats self slug"
  let ?P = "\<lambda>n. slug_taken cats self (baseSlug @ ''-'' @ show_nat n)"
  let ?A = "{n. counter + 1 \<le> n \<and> ?P n}"
  let ?B = "{n. counter \<le> n \<and> ?P n}"
  have finA: "finite ?A"
    by (rule finite_subset [OF _ finite_slug_taken [of cats self baseSlug]]) auto
  have "card ?B = (if ?P counter then 1 else 0) + card ?A"
  proof (cases "?P counter")
    case True
    then have eq: "?B = insert counter ?A"
      by (auto simp: Suc_le_eq intro: le_neq_trans)
    have notin: "counter \<notin> ?A"
      by simp
    have "card (insert counter ?A) = Suc (card ?A)"
      using finA notin by (rule card_insert_disjoint)
    with eq have "card ?B = Suc (card ?A)"
      by (simp only:)
    with True show ?thesis
      by simp
  next
    case False
    then have "?B = ?A"
      by (auto simp: Suc_le_eq intro: le_neq_trans)
    with False show ?thesis
      by simp
  qed
  with taken
  show "((cats, self, baseSlug, baseSlug @ ''-'' @ show_nat counter, counter + 1),
         (cats, self, baseSlug, slug, counter))
        \<in> measure (\<lambda>(cats, self, baseSlug, slug, counter).
          (if slug_taken cats self slug then 1 else 0)
          + card {n. counter \<le> n \<and> slug_taken cats self (baseSlug @ ''-'' @ show_nat n)})"
    by simp
qed

declare unique_slug.simps [simp del]

text \<open>
  \<open>categorySchema.pre('save')\<close>; \<open>name_modified\<close> is \<open>this.isModified('name')\<close>. When the
  parent id resolves to no category, level and path are left as they are.
\<close>

definition category_pre_save :: "category list \<Rightarrow> bool \<Rightarrow> category \<Rightarrow> category" where
  "category_pre_save cats name_modified this =
     (let this1 =
            (if name_modified \<or> c_slug this = []
             then this\<lparr>c_slug :=
                    unique_slug cats (c_id this) (slugify (c_name this)) (slugify (c_name this)) 1\<rparr>
             else this)
      in case c_parent this1 of
           Some p \<Rightarrow>
             (case findById c_id cats p of
                Some parentCategory \<Rightarrow>
                  this1\<lparr>c_level := c_level parentCategory + 1,
                        c_path := (if c_path parentCategory \<noteq> []
                                   then c_path parentCategory @ ''/'' @ c_slug this1
                                   else c_slug this1)\<rparr>
              | None \<Rightarrow> this1)
         | None \<Rightarrow> this1\<lparr>c_level := 0, c_path := c_slug this1\<rparr>)"

section \<open>routes/categories.js\<close>

text \<open>The validated fields of the body of \<open>POST /api/categories\<close>.\<close>

record category_body =
  cb_name :: string
  cb_description :: "string option"
  cb_parent :: "oid option"
  cb_allowedFileTypes :: "string list option"
  cb_maxFileSize :: "nat option"
  cb_requiresApproval :: "bool option"

text \<open>\<open>parent || null\<close>: an empty string is falsy.\<close>

definition truthy_id :: "oid option \<Rightarrow> oid option" where
  "truthy_id p = (case p of None \<Rightarrow> None | Some i \<Rightarrow> if i = [] then None else Some i)"

text \<open>
  The handler of \<open>POST /api/categories\<close>. \<open>Category.create\<close> builds the document with the
  schema's defaults (the schema lower-cases each allowed file type) and saves it, which
  runs the pre-save hook; \<open>new_id\<close> is the ObjectId generated for it.
\<close>

definition create_category ::
  "oid \<Rightarrow> user \<Rightarrow> category_body \<Rightarrow> category list \<Rightarrow> response \<times> category list" where
  "create_category new_id u body cats =
     (if (case truthy_id (cb_parent body) of
            None \<Rightarrow> False
          | Some p \<Rightarrow> findById c_id cats p = None)
      then (json_error 400 ''Parent category not found'', cats)
      else
        (json_success 201 ''Category created successfully'',
         cats @ [category_pre_save cats True
           \<lparr>c_id = new_id, c_name = cb_name body, c_description = cb_description body,
            c_slug = [], c_parent = truthy_id (cb_parent body), c_level = 0, c_path = [],
            allowedFileTypes =
              map toLowerCase (case cb_allowedFileTypes body of None \<Rightarrow> [] | Some l \<Rightarrow> l),
            maxFileSize =
              (case cb_maxFileSize body of
                 None \<Rightarrow> 50 * 1024 * 1024
               | Some m \<Rightarrow> if m = 0 then 50 * 1024 * 1024 else m),
            requiresApproval =
              (case cb_requiresApproval body of None \<Rightarrow> True | Some b \<Rightarrow> b),
            documentCount = 0, c_isActive = True, c_createdBy = u_id u\<rparr>]))"

text \<open>The validated fields of the body of \<open>PUT /api/categories/:id\<close>, each optional.\<close>

record category_update =
  cu_name :: "string option"
  cu_description :: "string option"
  cu_parent :: "oid option"
  cu_allowedFileTypes :: "string list option"
  cu_maxFileSize :: "nat option"
  cu_requiresApproval :: "bool option"
  cu_isActive :: "bool option"

text \<open>
  \<open>Category.findByIdAndUpdate(id, req.body, { new: true, runValidators: true })\<close>: the
  fields present in the body are written to the stored document (the fields the route
  validates are modelled). The update goes to the database as a query; \<open>pre('save')\<close>
  is document middleware and is not run by it.
\<close>

definition findByIdAndUpdate_category :: "category_update \<Rightarrow> category \<Rightarrow> category" where
  "findByIdAndUpdate_category body c =
     c\<lparr>c_name := (case cu_name body of None \<Rightarrow> c_name c | Some n \<Rightarrow> n),
       c_description :=
         (case cu_description body of None \<Rightarrow> c_description c | Some d \<Rightarrow> Some d),
       c_parent := (case cu_parent body of None \<Rightarrow> c_parent c | Some p \<Rightarrow> Some p),
       allowedFileTypes :=
         (case cu_allowedFileTypes body of None \<Rightarrow> allowedFileTypes c | Some l \<Rightarrow> map toLowerCase l),
       maxFileSize := (case cu_maxFileSize body of None \<Rightarrow> maxFileSize c | Some m \<Rightarrow> m),
       requiresApproval :=
         (case cu_requiresApproval body of None \<Rightarrow> requiresApproval c | Some b \<Rightarrow> b),
       c_isActive := (case cu_isActive body of None \<Rightarrow> c_isActive c | Some b \<Rightarrow> b)\<rparr>"

text \<open>The handler of \<open>PUT /api/categories/:id\<close>.\<close>

definition update_category ::
  "oid \<Rightarrow> category_update \<Rightarrow> category list \<Rightarrow> response \<times> category list" where
  "update_category i body cats =
     (case findById c_id cats i of
        None \<Rightarrow> (json_error 404 ''Category not found'', cats)
      | Some c \<Rightarrow>
          (case truthy_id (cu_parent body) of
             Some p \<Rightarrow>
               if p = i then (json_error 400 ''Category cannot be its own parent'', cats)
               else if findById c_id cats p = None
               then (json_error 400 ''Parent category not found'', cats)
               else (json_success 200 ''Category updated successfully'',
                     replace_by_id c_id (findByIdAndUpdate_category body c) cats)
           | None \<Rightarrow>
               (json_success 200 ''Category updated successfully'',
                replace_by_id c_id (findByIdAndUpdate_category body c) cats)))"

text \<open>
  The relation the specification states between a category and its parent: with a parent,
  path is the parent's path, a slash and the slug, and level is the parent's level plus
  one; without one, path is the slug and level is 0.
\<close>

definition path_level_derived :: "category list \<Rightarrow> category \<Rightarrow> bool" where
  "path_level_derived cats c =
     (case c_parent c of
        None \<Rightarrow> c_path c = c_slug c \<and> c_level c = 0
      | Some p \<Rightarrow>
          (case findById c_id cats p of
             None \<Rightarrow> True
           | Some pc \<Rightarrow> c_path c = c_path pc @ ''/'' @ c_slug c \<and> c_level c = c_level pc + 1))"

section \<open>middleware/upload.js\<close>

text \<open>
  \<open>path.extname\<close> (POSIX): the extension of the last path segment, from its last dot;
  empty when the segment has no dot, when its last dot is its first character, and for
  the segment \<open>..\<close>.
\<close>

definition last_segment :: "string \<Rightarrow> string" where
  "last_segment p =
     rev (takeWhile (\<lambda>c. c \<noteq> CHR ''/'') (dropWhile (\<lambda>c. c = CHR ''/'') (rev p)))"

definition extname :: "string \<Rightarrow> string" where
  "extname p =
     (let b = last_segment p;
          ext = rev (takeWhile (\<lambda>c. c \<noteq> CHR ''.'') (rev b))
      in if CHR ''.'' \<notin> set b then []
         else if length ext + 1 = length b then []
         else if b = ''..'' then []
         else CHR ''.'' # ext)"

text \<open>\<open>path.extname(name).toLowerCase().substring(1)\<close>\<close>

definition file_extension :: "string \<Rightarrow> string" where
  "file_extension name = drop 1 (toLowerCase (extname name))"

text \<open>\<open>Array.prototype.join\<close>\<close>

fun join :: "string \<Rightarrow> string list \<Rightarrow> string" where
  "join sep [] = []"
| "join sep [x] = x"
| "join sep (x # y # ys) = x @ sep @ join sep (y # ys)"

text \<open>
  \<open>Math.round(n / 1024 / 1024)\<close> for a byte count \<open>n\<close>: the quotient is exact in
  floating point, and \<open>Math.round\<close> rounds a half upwards.
\<close>

definition round_mb :: "nat \<Rightarrow> nat" where
  "round_mb n = (2 * n + 1048576) div 2097152"

text \<open>
  The two environment variables the upload middleware reads; \<open>MAX_FILE_SIZE\<close> is held
  as \<open>parseInt\<close> returns it (\<open>None\<close> for unset or not a number).
\<close>

record environment =
  ALLOWED_FILE_TYPES :: "string option"
  MAX_FILE_SIZE :: "nat option"

text \<open>\<open>req.file\<close> as multer fills it; the disk storage generated \<open>filename\<close> and \<open>path\<close>.\<close>

record upload_file =
  f_originalname :: string
  f_filename :: string
  f_path :: string
  f_size :: nat
  f_mimetype :: string

definition allowedTypes :: "environment \<Rightarrow> string list" where
  "allowedTypes env =
     (case ALLOWED_FILE_TYPES env of
        None \<Rightarrow> [''pdf'', ''doc'', ''docx'', ''xls'', ''xlsx'', ''ppt'', ''pptx'', ''txt'',
                 ''jpg'', ''jpeg'', ''png'', ''gif'']
      | Some v \<Rightarrow>
          if v = []
          then [''pdf'', ''doc'', ''docx'', ''xls'', ''xlsx'', ''ppt'', ''pptx'', ''txt'',
                ''jpg'', ''jpeg'', ''png'', ''gif'']
          else split_on CHR '','' v)"

definition filter_message :: "environment \<Rightarrow> string \<Rightarrow> string" where
  "filter_message env fileExtension =
     ''File type .'' @ fileExtension @ '' is not allowed. Allowed types: ''
       @ join '', '' (allowedTypes env)"

text \<open>\<open>fileFilter\<close>: \<open>None\<close> for \<open>cb(null, true)\<close>, the message of the error otherwise.\<close>

definition fileFilter :: "environment \<Rightarrow> upload_file \<Rightarrow> string option" where
  "fileFilter env file =
     (let fileExtension = file_extension (f_originalname file)
      in if fileExtension \<in> set (allowedTypes env) then None
         else Some (filter_message env fileExtension))"

definition fileSize_limit :: "environment \<Rightarrow> nat" where
  "fileSize_limit env =
     (case MAX_FILE_SIZE env of
        None \<Rightarrow> 50 * 1024 * 1024
      | Some n \<Rightarrow> if n = 0 then 50 * 1024 * 1024 else n)"

text \<open>
  \<open>uploadSingle('file')\<close>. multer asks \<open>fileFilter\<close> before it stores anything, removes
  what it stored of a file that passes the size limit, and otherwise leaves the file
  on disk under \<open>file.path\<close>. The disk is the set of paths that hold a file.
\<close>

definition uploadSingle ::
  "environment \<Rightarrow> upload_file option \<Rightarrow> string set \<Rightarrow> upload_file step \<times> string set" where
  "uploadSingle env part disk =
     (case part of
        None \<Rightarrow> (Respond (json_error 400 ''No file uploaded''), disk)
      | Some file \<Rightarrow>
          (case fileFilter env file of
             Some msg \<Rightarrow> (Respond (json_error 400 msg), disk)
           | None \<Rightarrow>
               if f_size file > fileSize_limit env
               then (Respond (json_error 400
                       (''File too large. Maximum size is ''
                          @ show_nat (round_mb (fileSize_limit env)) @ ''MB'')), disk)
               else (Next file, insert (f_path file) disk)))"

text \<open>\<open>deleteFile\<close>: \<open>fs.unlink\<close>, a missing file (\<open>ENOENT\<close>) is not an error.\<close>

definition deleteFile :: "string \<Rightarrow> string set \<Rightarrow> string set" where
  "deleteFile filePath disk = disk - {filePath}"

section \<open>models/DocumentVersion.js\<close>

record documentVersion =
  v_document :: oid
  v_version :: nat
  v_fileName :: string
  v_originalName :: string
  v_filePath :: string
  v_fileSize :: nat
  v_mimeType :: string
  v_checksum :: string
  v_uploadedBy :: oid
  v_uploadedAt :: date
  v_isActive :: bool

section \<open>routes/documents.js\<close>

text \<open>What the document routes read and write.\<close>

record store =
  st_categories :: "category list"
  st_documents :: "document list"
  st_versions :: "documentVersion list"
  st_files :: "string set"

text \<open>\<open>documentSchema.pre('save')\<close>; \<open>status_modified\<close> is \<open>this.isModified('status')\<close>.\<close>

definition document_pre_save :: "bool \<Rightarrow> date \<Rightarrow> document \<Rightarrow> document" where
  "document_pre_save status_modified now this =
     (if status_modified \<and> d_status this = ''approved''
      then this\<lparr>d_approvedAt := Some now\<rparr>
      else this)"

subsection \<open>Upload\<close>

text \<open>
  The fields of the multipart body after \<open>validateRequest\<close> has sanitised them
  (\<open>tags\<close> after the handler's \<open>JSON.parse\<close>).
\<close>

record upload_body =
  ub_title :: string
  ub_description :: "string option"
  ub_category :: oid
  ub_tags :: "string list option"
  ub_department :: "string option"
  ub_expiryDate :: "date option"

text \<open>
  The validators of the two schemas that \<open>Model.create\<close> runs: required strings must
  not be empty, bounded strings must fit, the status must be one of the enum.
\<close>

definition document_validates :: "document \<Rightarrow> bool" where
  "document_validates d =
     (d_title d \<noteq> [] \<and> length (d_title d) \<le> 200
      \<and> (case d_description d of None \<Rightarrow> True | Some t \<Rightarrow> length t \<le> 1000)
      \<and> d_fileName d \<noteq> [] \<and> d_originalName d \<noteq> [] \<and> d_filePath d \<noteq> []
      \<and> d_mimeType d \<noteq> [] \<and> d_fileExtension d \<noteq> []
      \<and> d_status d \<in> set [''draft'', ''pending'', ''approved'', ''rejected'', ''archived''])"

definition version_validates :: "documentVersion \<Rightarrow> bool" where
  "version_validates v =
     (v_fileName v \<noteq> [] \<and> v_originalName v \<noteq> [] \<and> v_filePath v \<noteq> []
      \<and> v_mimeType v \<noteq> [] \<and> v_checksum v \<noteq> [])"

definition type_message :: "string \<Rightarrow> string list \<Rightarrow> string" where
  "type_message fileExtension allowed =
     ''File type .'' @ fileExtension @ '' not allowed in this category. Allowed types: ''
       @ join '', '' allowed"

definition size_message :: "nat \<Rightarrow> string" where
  "size_message limit =
     ''File size exceeds category limit of '' @ show_nat (round_mb limit) @ ''MB''"

text \<open>\<open>department || req.user.department\<close>\<close>

definition department_or :: "string option \<Rightarrow> string option \<Rightarrow> string option" where
  "department_or department fallback =
     (case department of
        None \<Rightarrow> fallback
      | Some d \<Rightarrow> if d = [] then fallback else Some d)"

text \<open>
  The handler of \<open>POST /api/documents\<close>. \<open>sha256\<close> is the digest of the file stored
  under a path (\<open>generateChecksum\<close>, which rejects when the file cannot be read),
  \<open>new_id\<close> the ObjectId generated for the document, \<open>now\<close> the clock.
  \<open>Document.create\<close> validates the new document and runs \<open>documentSchema.pre('save')\<close>
  on it, for which the status given to \<open>create\<close> counts as modified. An exception
  thrown inside \<open>try\<close> (checksum, either \<open>create\<close>) lands in the \<open>catch\<close> branch, which
  deletes the file and answers 500.
\<close>

definition upload_document ::
  "(string \<Rightarrow> string) \<Rightarrow> oid \<Rightarrow> date \<Rightarrow> user \<Rightarrow> upload_file \<Rightarrow> upload_body \<Rightarrow> store \<Rightarrow>
   response \<times> store" where
  "upload_document sha256 new_id now u file body s =
     (case findById c_id (st_categories s) (ub_category body) of
        None \<Rightarrow>
          (json_error 400 ''Category not found'',
           s\<lparr>st_files := deleteFile (f_path file) (st_files s)\<rparr>)
      | Some categoryDoc \<Rightarrow>
          let fileExtension = file_extension (f_originalname file) in
          if allowedFileTypes categoryDoc \<noteq> []
             \<and> fileExtension \<notin> set (allowedFileTypes categoryDoc)
          then (json_error 400 (type_message fileExtension (allowedFileTypes categoryDoc)),
                s\<lparr>st_files := deleteFile (f_path file) (st_files s)\<rparr>)
          else if f_size file > maxFileSize categoryDoc
          then (json_error 400 (size_message (maxFileSize categoryDoc)),
                s\<lparr>st_files := deleteFile (f_path file) (st_files s)\<rparr>)
          else if f_path file \<notin> st_files s
          then (json_error 500 ''Server error while uploading document'',
                s\<lparr>st_files := deleteFile (f_path file) (st_files s)\<rparr>)
          else
            let document =
                  \<lparr>d_id = new_id, d_title = ub_title body, d_description = ub_description body,
                   d_fileName = f_filename file, d_originalName = f_originalname file,
                   d_filePath = f_path file, d_fileSize = f_size file,
                   d_mimeType = f_mimetype file, d_fileExtension = fileExtension,
                   d_category = ub_category body,
                   d_tags = (case ub_tags body of None \<Rightarrow> [] | Some ts \<Rightarrow> ts),
                   d_uploadedBy = u_id u,
                   d_department = department_or (ub_department body) (u_department u),
                   d_version = 1,
                   d_status = (if requiresApproval categoryDoc then ''pending'' else ''approved''),
                   d_approvedBy = None, d_approvedAt = None, d_rejectionReason = None,
                   d_expiryDate = ub_expiryDate body, d_isPublic = False,
                   d_permissions = \<lparr>p_read = [], p_write = [], p_delete = []\<rparr>,
                   d_isActive = True, d_isDeleted = False, d_deletedAt = None,
                   d_deletedBy = None\<rparr>;
                version =
                  \<lparr>v_document = new_id, v_version = 1, v_fileName = f_filename file,
                   v_originalName = f_originalname file, v_filePath = f_path file,
                   v_fileSize = f_size file, v_mimeType = f_mimetype file,
                   v_checksum = sha256 (f_path file), v_uploadedBy = u_id u,
                   v_uploadedAt = now, v_isActive = True\<rparr>
            in if \<not> document_validates document
               then (json_error 500 ''Server error while uploading document'',
                     s\<lparr>st_files := deleteFile (f_path file) (st_files s)\<rparr>)
               else if \<not> version_validates version
               then (json_error 500 ''Server error while uploading document'',
                     s\<lparr>st_documents := st_documents s @ [document_pre_save True now document],
                       st_files := deleteFile (f_path file) (st_files s)\<rparr>)
               else (json_success 201 ''Document uploaded successfully'',
                     s\<lparr>st_documents := st_documents s @ [document_pre_save True now document],
                       st_versions := st_versions s @ [version],
                       st_categories :=
                         replace_by_id c_id
                           (category_pre_save (st_categories s) False
                              (categoryDoc\<lparr>documentCount := documentCount categoryDoc + 1\<rparr>))
                           (st_categories s)\<rparr>))"

text \<open>
  The chain of \<open>POST /api/documents\<close> behind \<open>protect\<close>: \<open>uploadSingle('file')\<close>,
  \<open>validateRequest\<close>, the handler (the audit middleware between them does not touch
  the store). \<open>part\<close> is the file part of the request, \<open>rules_ok\<close> whether
  express-validator found no error in the fields. \<open>validateRequest\<close> answers 400 and
  returns; it does not delete the stored file.
\<close>

definition upload_route ::
  "environment \<Rightarrow> (string \<Rightarrow> string) \<Rightarrow> oid \<Rightarrow> date \<Rightarrow> user \<Rightarrow> upload_file option \<Rightarrow> bool \<Rightarrow>
   upload_body \<Rightarrow> store \<Rightarrow> response \<times> store" where
  "upload_route env sha256 new_id now u part rules_ok body s =
     (case uploadSingle env part (st_files s) of
        (Respond r, disk) \<Rightarrow> (r, s\<lparr>st_files := disk\<rparr>)
      | (Next file, disk) \<Rightarrow>
          if \<not> rules_ok then (json_error 400 ''Validation failed'', s\<lparr>st_files := disk\<rparr>)
          else upload_document sha256 new_id now u file body (s\<lparr>st_files := disk\<rparr>))"

subsection \<open>Approval\<close>

record approval_body =
  ab_status :: string
  ab_rejectionReason :: "string option"

text \<open>
  The sanitizer \<open>trim()\<close> of express-validator strips what \<open>\s\<close> matches at both ends.
  Below 256 that is tab, line feed, vertical tab, form feed, carriage return, space and
  the no-break space U+00A0.
\<close>

definition is_space :: "char \<Rightarrow> bool" where
  "is_space c =
     (c \<in> set [CHR '' '', CHR 0x09, CHR 0x0A, CHR 0x0B, CHR 0x0C, CHR 0x0D, CHR 0xA0])"

definition trim :: "string \<Rightarrow> string" where
  "trim s = rev (dropWhile is_space (rev (dropWhile is_space s)))"

text \<open>
  The rules of the route:
  \<^verbatim>\<open>body('status').isIn(['approved', 'rejected'])\<close> and
  \<^verbatim>\<open>body('rejectionReason').optional().trim().isLength({ max: 500 })\<close>.
\<close>

definition approval_sanitize :: "approval_body \<Rightarrow> approval_body" where
  "approval_sanitize body = body\<lparr>ab_rejectionReason := map_option trim (ab_rejectionReason body)\<rparr>"

definition approval_rules_ok :: "approval_body \<Rightarrow> bool" where
  "approval_rules_ok body =
     (ab_status body \<in> set [''approved'', ''rejected'']
      \<and> (case ab_rejectionReason body of None \<Rightarrow> True | Some r \<Rightarrow> length (trim r) \<le> 500))"

text \<open>
  The handler of \<open>PUT /api/documents/:id/approval\<close>; \<open>now\<close> is the clock read by the
  handler, \<open>save_time\<close> the clock read by the pre-save hook. A status outside the
  schema's enum makes \<open>save\<close> throw, which the \<open>catch\<close> answers with 500.
\<close>

definition approve_document ::
  "date \<Rightarrow> date \<Rightarrow> user \<Rightarrow> oid \<Rightarrow> approval_body \<Rightarrow> document list \<Rightarrow> response \<times> document list" where
  "approve_document now save_time u i body docs =
     (case findById d_id docs i of
        None \<Rightarrow> (json_error 404 ''Document not found'', docs)
      | Some document \<Rightarrow>
          if d_status document \<noteq> ''pending''
          then (json_error 400 ''Document is not pending approval'', docs)
          else
            let d1 = document\<lparr>d_status := ab_status body, d_approvedBy := Some (u_id u),
                               d_approvedAt := Some now\<rparr>;
                d2 = (if ab_status body = ''rejected''
                         \<and> first_truthy [ab_rejectionReason body] [] \<noteq> []
                      then d1\<lparr>d_rejectionReason := ab_rejectionReason body\<rparr>
                      else d1)
            in if \<not> document_validates d2
               then (json_error 500 ''Server error while processing approval'', docs)
               else (json_success 200 (''Document '' @ ab_status body @ '' successfully''),
                     replace_by_id d_id
                       (document_pre_save (ab_status body \<noteq> d_status document) save_time d2)
                       docs))"

text \<open>The chain of the route behind \<open>protect\<close>: \<open>authorize\<close>, \<open>validateRequest\<close>, the handler.\<close>

definition approval_route ::
  "date \<Rightarrow> date \<Rightarrow> user \<Rightarrow> oid \<Rightarrow> approval_body \<Rightarrow> document list \<Rightarrow> response \<times> document list" where
  "approval_route now save_time u i body docs =
     (case authorize [''admin'', ''manager''] u of
        Respond r \<Rightarrow> (r, docs)
      | Next _ \<Rightarrow>
          if \<not> approval_rules_ok body then (json_error 400 ''Validation failed'', docs)
          else approve_document now save_time u i (approval_sanitize body) docs)"

section \<open>Sample data for the concrete evaluations\<close>

definition sample_user :: "oid \<Rightarrow> string \<Rightarrow> bool \<Rightarrow> user" where
  "sample_user i r active =
     \<lparr>u_id = i, u_name = ''Sam'', u_email = ''sam@example.com'', u_password = ''$2a$10$hash'',
      u_role = r, u_department = Some ''Finance'', u_lastLogin = None, u_isActive = active\<rparr>"

definition sample_document :: "oid \<Rightarrow> oid \<Rightarrow> string \<Rightarrow> permissions \<Rightarrow> document" where
  "sample_document i owner st perms =
     \<lparr>d_id = i, d_title = ''Report'', d_description = None, d_fileName = ''f-1.pdf'',
      d_originalName = ''report.pdf'', d_filePath = ''uploads/f-1.pdf'', d_fileSize = 1024,
      d_mimeType = ''application/pdf'', d_fileExtension = ''pdf'', d_category = ''c1'',
      d_tags = [], d_uploadedBy = owner, d_department = None, d_version = 1, d_status = st,
      d_approvedBy = None, d_approvedAt = None, d_rejectionReason = None,
      d_expiryDate = None, d_isPublic = False, d_permissions = perms, d_isActive = True,
      d_isDeleted = False, d_deletedAt = None, d_deletedBy = None\<rparr>"

definition sample_verify :: "string \<Rightarrow> jwt_payload option" where
  "sample_verify t =
     (if t = ''good'' then Some \<lparr>jwt_id = ''u1'', jwt_role = ''user''\<rparr> else None)"

definition new_category :: "string \<Rightarrow> oid option \<Rightarrow> category_body" where
  "new_category n p =
     \<lparr>cb_name = n, cb_description = None, cb_parent = p, cb_allowedFileTypes = None,
      cb_maxFileSize = None, cb_requiresApproval = None\<rparr>"

definition no_change :: category_update where
  "no_change =
     \<lparr>cu_name = None, cu_description = None, cu_parent = None, cu_allowedFileTypes = None,
      cu_maxFileSize = None, cu_requiresApproval = None, cu_isActive = None\<rparr>"

definition three_categories :: "category list" where
  "three_categories =
     snd (create_category ''c3'' (sample_user ''u1'' ''admin'' True)
            (new_category ''Annual'' (Some ''c1''))
       (snd (create_category ''c2'' (sample_user ''u1'' ''admin'' True)
            (new_category ''Reports'' (Some ''c1''))
       (snd (create_category ''c1'' (sample_user ''u1'' ''admin'' True)
            (new_category ''Finance'' None) [])))))"

definition sample_category :: "oid \<Rightarrow> string list \<Rightarrow> bool \<Rightarrow> category" where
  "sample_category i allowed approval =
     \<lparr>c_id = i, c_name = ''Finance'', c_description = None, c_slug = ''finance'',
      c_parent = None, c_level = 0, c_path = ''finance'', allowedFileTypes = allowed,
      maxFileSize = 25 * 1024 * 1024, requiresApproval = approval, documentCount = 0,
      c_isActive = True, c_createdBy = ''u9''\<rparr>"

definition sample_store :: "string list \<Rightarrow> bool \<Rightarrow> string set \<Rightarrow> store" where
  "sample_store allowed approval disk =
     \<lparr>st_categories = [sample_category ''c1'' allowed approval], st_documents = [],
      st_versions = [], st_files = disk\<rparr>"

definition sample_file :: "string \<Rightarrow> upload_file" where
  "sample_file n =
     \<lparr>f_originalname = n, f_filename = ''f-1'', f_path = ''uploads/f-1'', f_size = 1048576,
      f_mimetype = ''application/octet-stream''\<rparr>"

definition sample_body :: "string option \<Rightarrow> upload_body" where
  "sample_body dep =
     \<lparr>ub_title = ''Report'', ub_description = None, ub_category = ''c1'', ub_tags = None,
      ub_department = dep, ub_expiryDate = None\<rparr>"

definition default_env :: environment where
  "default_env = \<lparr>ALLOWED_FILE_TYPES = None, MAX_FILE_SIZE = None\<rparr>"

definition sample_sha256 :: "string \<Rightarrow> string" where
  "sample_sha256 p = ''9f86d081884c7d65''"



section \<open>Verified properties\<close>

subsection \<open>Collections\<close>

lemma findById_key: "findById key coll i = Some x \<Longrightarrow> key x = i"
  by (auto simp: findById_def find_Some_iff)

lemma findById_replace_by_id:
  "findById key coll (key x) = Some y \<Longrightarrow>
   findById key (replace_by_id key x coll) (key x) = Some x"
  by (induction coll) (auto simp: findById_def replace_by_id_def)

lemma findById_member:
  "x \<in> set coll \<Longrightarrow> \<exists>y. findById key coll (key x) = Some y"
  by (cases "findById key coll (key x)") (auto simp: findById_def find_None_iff)


subsection \<open>Authentication gate\<close>

lemma protect_Next_iff:
  "protect jwt_verify users authorization = Next u \<longleftrightarrow>
     (\<exists>token decoded. bearer_token authorization = Some token
        \<and> jwt_verify token = Some decoded
        \<and> findById u_id users (jwt_id decoded) = Some u \<and> u_isActive u)"
  by (auto simp: protect_def split: option.splits)

text \<open>
  C9. A request whose credential verifies (validly signed, unexpired) but whose identity
  record is gone from the users collection, or is there with \<open>isActive = false\<close>, is
  answered with status 401 by \<open>protect\<close>, and the gated handler does not run: whatever
  the handler is, the store is returned unchanged. The record consulted is the one
  currently in the collection, looked up by the id of the credential.
\<close>

theorem protect_rejects_deactivated:
  assumes tok: "bearer_token authorization = Some token"
    and ver: "jwt_verify token = Some decoded"
    and gone: "findById u_id users (jwt_id decoded) = None
               \<or> (\<exists>u. findById u_id users (jwt_id decoded) = Some u \<and> \<not> u_isActive u)"
  shows "\<exists>r. protect jwt_verify users authorization = Respond r
           \<and> res_status r = 401 \<and> \<not> res_success r
           \<and> protected_route jwt_verify users authorization handler s = (r, s)"
proof -
  from gone show ?thesis
  proof
    assume "findById u_id users (jwt_id decoded) = None"
    with tok ver show ?thesis
      by (simp add: protect_def protected_route_def json_error_def)
  next
    assume "\<exists>u. findById u_id users (jwt_id decoded) = Some u \<and> \<not> u_isActive u"
    then obtain u where "findById u_id users (jwt_id decoded) = Some u" "\<not> u_isActive u"
      by blast
    with tok ver show ?thesis
      by (simp add: protect_def protected_route_def json_error_def)
  qed
qed

theorem protect_rejects_deactivated_witness:
  "\<exists>r. protect sample_verify [sample_user ''u1'' ''user'' False] (Some ''Bearer good'')
          = Respond r
       \<and> res_status r = 401 \<and> \<not> res_success r
       \<and> protected_route sample_verify [sample_user ''u1'' ''user'' False]
            (Some ''Bearer good'') (\<lambda>u n. (json_success 200 ''done'', Suc n)) (0::nat)
          = (r, 0)"
proof -
  have tok: "bearer_token (Some ''Bearer good'') = Some ''good''"
    by (simp add: bearer_token_def)
  have ver: "sample_verify ''good'' = Some \<lparr>jwt_id = ''u1'', jwt_role = ''user''\<rparr>"
    by (simp add: sample_verify_def)
  have gone: "findById u_id [sample_user ''u1'' ''user'' False]
                (jwt_id \<lparr>jwt_id = ''u1'', jwt_role = ''user''\<rparr>) = None
      \<or> (\<exists>u. findById u_id [sample_user ''u1'' ''user'' False]
                (jwt_id \<lparr>jwt_id = ''u1'', jwt_role = ''user''\<rparr>) = Some u
             \<and> \<not> u_isActive u)"
    by (simp add: findById_def sample_user_def)
  show ?thesis
    by (rule protect_rejects_deactivated
          [where jwt_verify = sample_verify and token = "''good''"
             and decoded = "\<lparr>jwt_id = ''u1'', jwt_role = ''user''\<rparr>",
           OF tok ver gone])
qed

subsection \<open>Resource gate\<close>

lemma document_gate_is_checkOwnership: "document_gate operation = checkOwnership"
  by (cases operation) simp_all

lemma document_gate_unprivileged:
  assumes "findById d_id documents rid = Some doc"
    and "u_role u \<noteq> ''admin''" and "u_role u \<noteq> ''manager''"
    and "d_uploadedBy doc \<noteq> u_id u"
  shows "document_gate operation documents u rid =
           (if u_id u \<in> set (p_read (d_permissions doc)) then Next doc
            else Respond (json_error 403 ''Not authorized to access this resource''))"
  using assms
  by (simp add: document_gate_is_checkOwnership checkOwnership_def hasPermission_def
      permission_list_def)

text \<open>
  C1. The gate of the delete route consults \<open>permissions.read\<close>, not
  \<open>permissions.delete\<close>. A plain user \<open>u2\<close> who is not the uploader and is listed only in
  \<open>permissions.read\<close> does not hold the delete capability, yet is let through to the
  delete handler; the same user listed only in \<open>permissions.delete\<close> holds the
  capability and is refused with 403.
\<close>

theorem document_gate_delete_reads_read_list:
  "document_gate DeleteDoc
     [sample_document ''d1'' ''u1'' ''approved''
        \<lparr>p_read = [''u2''], p_write = [], p_delete = []\<rparr>]
     (sample_user ''u2'' ''user'' True) ''d1''
   = Next (sample_document ''d1'' ''u1'' ''approved''
        \<lparr>p_read = [''u2''], p_write = [], p_delete = []\<rparr>)
   \<and> \<not> hasPermission
         (sample_document ''d1'' ''u1'' ''approved''
            \<lparr>p_read = [''u2''], p_write = [], p_delete = []\<rparr>)
         ''u2'' (capability DeleteDoc)
   \<and> document_gate DeleteDoc
     [sample_document ''d1'' ''u1'' ''approved''
        \<lparr>p_read = [], p_write = [], p_delete = [''u2'']\<rparr>]
     (sample_user ''u2'' ''user'' True) ''d1''
   = Respond (json_error 403 ''Not authorized to access this resource'')
   \<and> hasPermission
         (sample_document ''d1'' ''u1'' ''approved''
            \<lparr>p_read = [], p_write = [], p_delete = [''u2'']\<rparr>)
         ''u2'' (capability DeleteDoc)"
  by (simp add: checkOwnership_def findById_def hasPermission_def permission_list_def
      sample_document_def sample_user_def)

subsection \<open>Audit trail of the login route\<close>

text \<open>For an authenticated request the callback does append an entry.\<close>

lemma auditLog_finish_authenticated:
  "auditLog_finish (\<lambda>e. True) ''document_approve'' ''document''
     (Some (sample_user ''u9'' ''admin'' True))
     \<lparr>req_params_id = Some ''d1'', req_body_id = None, req_ip = Some ''10.0.0.1'',
      req_remoteAddress = None, req_userAgent = None, req_sessionID = None\<rparr>
     (Some (json_error 400 ''Document is not pending approval'')) 12 99 []
   = [\<lparr>al_user = ''u9'', al_action = ''document_approve'', al_resource = ''document'',
       al_resourceId = ''d1'', al_statusCode = 400, al_responseSuccess = Some False,
       al_ipAddress = ''10.0.0.1'', al_userAgent = ''Unknown'', al_sessionId = ''no-session'',
       al_status = ''failure'', al_errorMessage = Some ''Document is not pending approval'',
       al_duration = 12, al_timestamp = 99\<rparr>]"
  by (simp add: auditLog_finish_def logAction_def sample_user_def json_error_def)

text \<open>
  C2. The login route never appends an audit entry: the audit callback requires
  \<open>req.user\<close>, which nothing on this route sets. In particular a login attempt with an
  email that matches no user record is answered 401 and leaves the audit log as it was.
\<close>

theorem login_route_appends_no_audit_entry:
  "snd (snd (login_route persist bcrypt_compare bcrypt_hash salt rate_ok rules_ok req body
               duration now (users, logs))) = logs
   \<and> login_route (\<lambda>e. True) bcrypt_compare bcrypt_hash salt True True req
        \<lparr>lb_email = ''nobody@example.com'', lb_password = ''secret''\<rparr> duration now
        ([sample_user ''u1'' ''user'' True], [])
      = (json_error 401 ''Invalid credentials'', [sample_user ''u1'' ''user'' True], [])"
  by (simp add: login_route_def auditLog_finish_def login_handler_def sample_user_def
      split: prod.splits)

subsection \<open>Saving a user whose password was not modified\<close>

text \<open>
  The hook as written, for an unmodified password: it calls \<open>next()\<close> with the document
  untouched and, lacking a \<open>return\<close>, goes on to replace \<open>this.password\<close> of the document
  object by the hash of the stored hash and to call \<open>next()\<close> a second time.
\<close>

lemma user_pre_save_unmodified_password:
  "user_pre_save bcrypt_hash salt False this
     = (this\<lparr>u_password := bcrypt_hash (u_password this) salt\<rparr>,
        [this, this\<lparr>u_password := bcrypt_hash (u_password this) salt\<rparr>])"
  by (simp add: user_pre_save_def Let_def)



text \<open>
  The login handler is such a save: after a successful login the record stored under
  the user's id still carries the hash the user logged in with.
\<close>

lemma login_keeps_stored_hash:
  assumes found: "find (\<lambda>x. u_email x = lb_email body) users = Some u"
    and active: "u_isActive u"
    and matches: "matchPassword bcrypt_compare u (lb_password body)"
  shows "login_handler bcrypt_compare bcrypt_hash salt now body users
           = (json_success 200 ''Login successful'',
              replace_by_id u_id (u\<lparr>u_lastLogin := Some now\<rparr>) users)
       \<and> findById u_id (snd (login_handler bcrypt_compare bcrypt_hash salt now body users))
            (u_id u) = Some (u\<lparr>u_lastLogin := Some now\<rparr>)"
proof -
  have run: "login_handler bcrypt_compare bcrypt_hash salt now body users
           = (json_success 200 ''Login successful'',
              replace_by_id u_id (u\<lparr>u_lastLogin := Some now\<rparr>) users)"
    using assms
    by (simp add: login_handler_def user_save_def user_pre_save_unmodified_password)
  have mem: "u \<in> set users"
    using found by (auto simp: find_Some_iff)
  from findById_member [where key = u_id, OF mem]
  obtain y where "findById u_id users (u_id u) = Some y"
    by blast
  then have "findById u_id users (u_id (u\<lparr>u_lastLogin := Some now\<rparr>)) = Some y"
    by simp
  then have "findById u_id (replace_by_id u_id (u\<lparr>u_lastLogin := Some now\<rparr>) users)
               (u_id (u\<lparr>u_lastLogin := Some now\<rparr>)) = Some (u\<lparr>u_lastLogin := Some now\<rparr>)"
    by (rule findById_replace_by_id)
  with run show ?thesis
    by simp
qed

subsection \<open>Category hierarchy\<close>

text \<open>A category saved through the hook has the level and path derived from its parent.\<close>

lemma category_pre_save_derives:
  assumes "c_parent this = Some p" and "findById c_id cats p = Some pc" and "c_path pc \<noteq> []"
  shows "path_level_derived cats (category_pre_save cats name_modified this)"
  using assms by (simp add: category_pre_save_def path_level_derived_def Let_def)

lemma category_pre_save_derives_root:
  assumes "c_parent this = None"
  shows "path_level_derived cats (category_pre_save cats name_modified this)"
  using assms by (simp add: category_pre_save_def path_level_derived_def Let_def)

lemmas category_eval =
  create_category_def category_pre_save_def unique_slug.simps slug_taken_def slugify_def
  trim_dash_def slug_char_def toLowerCase_def to_lower_char_def upper_letters_def lower_letters_def findById_def truthy_id_def
  new_category_def sample_user_def

lemma three_categories_eq:
  "three_categories =
     [\<lparr>c_id = ''c1'', c_name = ''Finance'', c_description = None, c_slug = ''finance'',
       c_parent = None, c_level = 0, c_path = ''finance'', allowedFileTypes = [],
       maxFileSize = 52428800, requiresApproval = True, documentCount = 0,
       c_isActive = True, c_createdBy = ''u1''\<rparr>,
      \<lparr>c_id = ''c2'', c_name = ''Reports'', c_description = None, c_slug = ''reports'',
       c_parent = Some ''c1'', c_level = 1, c_path = ''finance/reports'',
       allowedFileTypes = [], maxFileSize = 52428800, requiresApproval = True,
       documentCount = 0, c_isActive = True, c_createdBy = ''u1''\<rparr>,
      \<lparr>c_id = ''c3'', c_name = ''Annual'', c_description = None, c_slug = ''annual'',
       c_parent = Some ''c1'', c_level = 1, c_path = ''finance/annual'',
       allowedFileTypes = [], maxFileSize = 52428800, requiresApproval = True,
       documentCount = 0, c_isActive = True, c_createdBy = ''u1''\<rparr>]"
  by (simp add: three_categories_def category_eval)

lemma three_categories_derived:
  "list_all (path_level_derived three_categories) three_categories"
  by (simp add: three_categories_eq path_level_derived_def findById_def)

text \<open>
  C3. Three categories are created: \<open>Finance\<close> at the root, \<open>Reports\<close> and \<open>Annual\<close> under
  it. \<open>PUT /api/categories/c3\<close> with a new name and the new parent \<open>c2\<close> is answered
  with success and stores the name and the parent, while slug, level and path keep the
  values derived at creation: the slug is still that of the old name, and level 1 and
  path \<open>finance/annual\<close> are not those derived from the new parent (level 1, path
  \<open>finance/reports\<close>). The relation between a category and its parent, which held for
  all three after the creations, no longer holds.
\<close>

theorem update_category_does_not_rederive:
  "fst (update_category ''c3''
          (no_change\<lparr>cu_name := Some ''Yearly'', cu_parent := Some ''c2''\<rparr>) three_categories)
     = json_success 200 ''Category updated successfully''
   \<and> map (\<lambda>c. (c_id c, c_name c, c_slug c, c_parent c, c_level c, c_path c))
       (snd (update_category ''c3''
          (no_change\<lparr>cu_name := Some ''Yearly'', cu_parent := Some ''c2''\<rparr>) three_categories))
     = [(''c1'', ''Finance'', ''finance'', None, 0, ''finance''),
        (''c2'', ''Reports'', ''reports'', Some ''c1'', 1, ''finance/reports''),
        (''c3'', ''Yearly'', ''annual'', Some ''c2'', 1, ''finance/annual'')]
   \<and> \<not> list_all
         (path_level_derived
            (snd (update_category ''c3''
               (no_change\<lparr>cu_name := Some ''Yearly'', cu_parent := Some ''c2''\<rparr>)
               three_categories)))
         (snd (update_category ''c3''
            (no_change\<lparr>cu_name := Some ''Yearly'', cu_parent := Some ''c2''\<rparr>)
            three_categories))"
  by (simp add: three_categories_eq path_level_derived_def update_category_def findById_def
      truthy_id_def findByIdAndUpdate_category_def replace_by_id_def no_change_def)

subsection \<open>Upload\<close>

lemma uploadSingle_Respond:
  "uploadSingle env part disk = (Respond r, disk') \<Longrightarrow> \<not> res_success r"
  by (auto simp: uploadSingle_def json_error_def split: option.splits if_splits)

lemma upload_document_success:
  assumes "upload_document sha256 new_id now u f body s = (r, s')"
    and "res_success r"
    and "findById c_id (st_categories s) (ub_category body) = Some c"
  shows "\<exists>doc. st_documents s' = st_documents s @ [doc] \<and> d_id doc = new_id
           \<and> d_status doc = (if requiresApproval c then ''pending'' else ''approved'')
           \<and> d_department doc = department_or (ub_department body) (u_department u)"
  using assms
  by (auto simp: upload_document_def document_pre_save_def Let_def json_error_def
      json_success_def split: if_splits)

text \<open>
  C7, as the specification states it, fails: the category checks are reached only by an
  upload that the upload middleware and the validation of the fields have let through.
  \<open>notes.TXT\<close> is sent to a category that allows only \<open>pdf\<close>, \<open>xls\<close> and \<open>xlsx\<close>, with
  fields that break a validation rule (a title of one character, say). The middleware
  stores the file, \<open>validateRequest\<close> answers 400 \<open>Validation failed\<close>, which lists no
  extension, and the stored file is still on disk.
\<close>

theorem upload_validation_failure_keeps_file:
  "findById c_id (st_categories (sample_store [''pdf'', ''xls'', ''xlsx''] True {}))
     (ub_category (sample_body None))
     = Some (sample_category ''c1'' [''pdf'', ''xls'', ''xlsx''] True)
   \<and> allowedFileTypes (sample_category ''c1'' [''pdf'', ''xls'', ''xlsx''] True) \<noteq> []
   \<and> file_extension (f_originalname (sample_file ''notes.TXT''))
        \<notin> set (allowedFileTypes (sample_category ''c1'' [''pdf'', ''xls'', ''xlsx''] True))
   \<and> upload_route default_env sample_sha256 ''d1'' 7 (sample_user ''u1'' ''user'' True)
        (Some (sample_file ''notes.TXT'')) False (sample_body None)
        (sample_store [''pdf'', ''xls'', ''xlsx''] True {})
      = (json_error 400 ''Validation failed'',
         sample_store [''pdf'', ''xls'', ''xlsx''] True {''uploads/f-1''})
   \<and> f_path (sample_file ''notes.TXT'')
        \<in> st_files (snd (upload_route default_env sample_sha256 ''d1'' 7
             (sample_user ''u1'' ''user'' True) (Some (sample_file ''notes.TXT'')) False
             (sample_body None) (sample_store [''pdf'', ''xls'', ''xlsx''] True {})))"
  by (simp add: upload_route_def uploadSingle_def fileFilter_def allowedTypes_def
      fileSize_limit_def file_extension_def extname_def last_segment_def toLowerCase_def
      to_lower_char_def upper_letters_def lower_letters_def findById_def default_env_def
      sample_file_def sample_store_def sample_category_def sample_body_def)

text \<open>
  C7, amended. For an upload whose file the upload middleware has accepted and stored
  and whose fields have passed validation: when the target category has a non-empty
  \<open>allowedFileTypes\<close> that does not contain the lower-cased extension of the original
  file name, the route answers with status 400 and the message that lists the
  category's allowed types, the documents and versions collections are unchanged, and
  the stored file is no longer on disk.
\<close>

theorem upload_rejects_disallowed_extension:
  assumes stored: "uploadSingle env part (st_files s) = (Next f, disk)"
    and valid: "rules_ok"
    and cat: "findById c_id (st_categories s) (ub_category body) = Some c"
    and nonempty: "allowedFileTypes c \<noteq> []"
    and notin: "file_extension (f_originalname f) \<notin> set (allowedFileTypes c)"
  shows "fst (upload_route env sha256 new_id now u part rules_ok body s)
           = json_error 400
               (''File type .'' @ file_extension (f_originalname f)
                  @ '' not allowed in this category. Allowed types: ''
                  @ join '', '' (allowedFileTypes c))
       \<and> st_documents (snd (upload_route env sha256 new_id now u part rules_ok body s))
           = st_documents s
       \<and> st_versions (snd (upload_route env sha256 new_id now u part rules_ok body s))
           = st_versions s
       \<and> f_path f \<in> disk
       \<and> f_path f \<notin> st_files (snd (upload_route env sha256 new_id now u part rules_ok body s))"
proof -
  have on_disk: "f_path f \<in> disk"
    using stored by (auto simp: uploadSingle_def split: option.splits if_splits)
  show ?thesis
    using assms on_disk
    by (simp add: upload_route_def upload_document_def type_message_def deleteFile_def)
qed

theorem upload_rejects_disallowed_extension_witness:
  "fst (upload_route default_env sample_sha256 ''d1'' 7 (sample_user ''u1'' ''user'' True)
          (Some (sample_file ''notes.TXT'')) True (sample_body None)
          (sample_store [''pdf'', ''xls'', ''xlsx''] True {}))
     = json_error 400
         ''File type .txt not allowed in this category. Allowed types: pdf, xls, xlsx''
   \<and> st_documents (snd (upload_route default_env sample_sha256 ''d1'' 7
          (sample_user ''u1'' ''user'' True) (Some (sample_file ''notes.TXT'')) True
          (sample_body None) (sample_store [''pdf'', ''xls'', ''xlsx''] True {}))) = []
   \<and> st_versions (snd (upload_route default_env sample_sha256 ''d1'' 7
          (sample_user ''u1'' ''user'' True) (Some (sample_file ''notes.TXT'')) True
          (sample_body None) (sample_store [''pdf'', ''xls'', ''xlsx''] True {}))) = []
   \<and> ''uploads/f-1'' \<notin> st_files (snd (upload_route default_env sample_sha256 ''d1'' 7
          (sample_user ''u1'' ''user'' True) (Some (sample_file ''notes.TXT'')) True
          (sample_body None) (sample_store [''pdf'', ''xls'', ''xlsx''] True {})))"
proof -
  have ext: "file_extension ''notes.TXT'' = ''txt''"
    by (simp add: file_extension_def extname_def last_segment_def toLowerCase_def
        to_lower_char_def upper_letters_def lower_letters_def)
  have stored:
    "uploadSingle default_env (Some (sample_file ''notes.TXT''))
       (st_files (sample_store [''pdf'', ''xls'', ''xlsx''] True {}))
     = (Next (sample_file ''notes.TXT''), {''uploads/f-1''})"
    by (simp add: uploadSingle_def fileFilter_def ext allowedTypes_def fileSize_limit_def
        default_env_def sample_file_def sample_store_def)
  have cat: "findById c_id
               (st_categories (sample_store [''pdf'', ''xls'', ''xlsx''] True {}))
               (ub_category (sample_body None))
             = Some (sample_category ''c1'' [''pdf'', ''xls'', ''xlsx''] True)"
    by (simp add: sample_store_def sample_body_def sample_category_def findById_def)
  have fields:
    "allowedFileTypes (sample_category ''c1'' [''pdf'', ''xls'', ''xlsx''] True)
       = [''pdf'', ''xls'', ''xlsx'']"
    "f_path (sample_file ''notes.TXT'') = ''uploads/f-1''"
    "f_originalname (sample_file ''notes.TXT'') = ''notes.TXT''"
    "st_documents (sample_store [''pdf'', ''xls'', ''xlsx''] True {}) = []"
    "st_versions (sample_store [''pdf'', ''xls'', ''xlsx''] True {}) = []"
    by (simp_all add: sample_category_def sample_file_def sample_store_def)
  have nonempty: "allowedFileTypes (sample_category ''c1'' [''pdf'', ''xls'', ''xlsx''] True) \<noteq> []"
    by (simp add: fields)
  have notin: "file_extension (f_originalname (sample_file ''notes.TXT''))
                 \<notin> set (allowedFileTypes (sample_category ''c1'' [''pdf'', ''xls'', ''xlsx''] True))"
    by (simp add: ext fields)
  from upload_rejects_disallowed_extension [OF stored TrueI cat nonempty notin,
      of sample_sha256 "''d1''" 7 "sample_user ''u1'' ''user'' True"]
  show ?thesis
    by (simp add: ext fields)
qed

text \<open>
  C8. When the upload route answers with success, exactly one document has been
  appended to the collection; its status is \<open>pending\<close> if the target category requires
  approval and \<open>approved\<close> otherwise, and its department is the department sent with
  the request when one was sent (a non-empty string), else the department of the
  uploading user.
\<close>

theorem upload_sets_status_and_department:
  assumes run: "upload_route env sha256 new_id now u part rules_ok body s = (r, s')"
    and ok: "res_success r"
    and cat: "findById c_id (st_categories s) (ub_category body) = Some c"
  shows "\<exists>doc. st_documents s' = st_documents s @ [doc] \<and> d_id doc = new_id
           \<and> d_status doc = (if requiresApproval c then ''pending'' else ''approved'')
           \<and> d_department doc =
               (case ub_department body of
                  None \<Rightarrow> u_department u
                | Some dep \<Rightarrow> if dep = [] then u_department u else Some dep)"
proof -
  from run ok obtain f disk where
    h: "upload_document sha256 new_id now u f body (s\<lparr>st_files := disk\<rparr>) = (r, s')"
    by (auto simp: upload_route_def json_error_def dest: uploadSingle_Respond
        split: prod.splits step.splits if_splits)
  have "findById c_id (st_categories (s\<lparr>st_files := disk\<rparr>)) (ub_category body) = Some c"
    using cat by simp
  from upload_document_success [OF h ok this]
  show ?thesis
    by (simp add: department_or_def)
qed

lemmas upload_eval =
  upload_route_def uploadSingle_def fileFilter_def filter_message_def allowedTypes_def
  fileSize_limit_def file_extension_def extname_def last_segment_def toLowerCase_def
  to_lower_char_def upper_letters_def lower_letters_def upload_document_def type_message_def size_message_def deleteFile_def
  document_validates_def version_validates_def document_pre_save_def department_or_def
  findById_def default_env_def sample_file_def sample_store_def sample_category_def sample_body_def
  sample_user_def sample_sha256_def json_error_def json_success_def Let_def

theorem upload_sets_status_and_department_witness:
  "\<exists>doc. st_documents (snd (upload_route default_env sample_sha256 ''d1'' 7
             (sample_user ''u1'' ''user'' True) (Some (sample_file ''report.pdf'')) True
             (sample_body None) (sample_store [''pdf''] True {}))) = [doc]
         \<and> d_id doc = ''d1'' \<and> d_status doc = ''pending''
         \<and> d_department doc = Some ''Finance''"
proof -
  let ?run = "upload_route default_env sample_sha256 ''d1'' 7
             (sample_user ''u1'' ''user'' True) (Some (sample_file ''report.pdf'')) True
             (sample_body None) (sample_store [''pdf''] True {})"
  have run: "?run = (fst ?run, snd ?run)"
    by simp
  have ok: "res_success (fst ?run)"
    by (simp add: upload_eval)
  have cat: "findById c_id (st_categories (sample_store [''pdf''] True {}))
               (ub_category (sample_body None)) = Some (sample_category ''c1'' [''pdf''] True)"
    by (simp add: sample_store_def sample_body_def sample_category_def findById_def)
  have fields:
    "requiresApproval (sample_category ''c1'' [''pdf''] True)"
    "ub_department (sample_body None) = None"
    "u_department (sample_user ''u1'' ''user'' True) = Some ''Finance''"
    "st_documents (sample_store [''pdf''] True {}) = []"
    by (simp_all add: sample_category_def sample_body_def sample_user_def sample_store_def)
  from upload_sets_status_and_department [OF run ok cat]
  show ?thesis
    by (simp add: fields)
qed

text \<open>
  C4, as the specification states it, fails: the upload middleware applies its own
  list of allowed extensions before the category is looked at. With the default
  environment, \<open>setup.exe\<close> sent to a category whose \<open>allowedFileTypes\<close> is empty is
  answered 400 because of its extension.
\<close>

theorem empty_allowedFileTypes_still_filtered:
  "allowedFileTypes (sample_category ''c1'' [] True) = []
   \<and> upload_route default_env sample_sha256 ''d1'' 7 (sample_user ''u1'' ''user'' True)
       (Some (sample_file ''setup.exe'')) True (sample_body None) (sample_store [] True {})
     = (json_error 400
          (''File type .exe is not allowed. Allowed types: ''
             @ ''pdf, doc, docx, xls, xlsx, ppt, pptx, txt, jpg, jpeg, png, gif''),
        sample_store [] True {})"
  by (simp add: upload_eval)

text \<open>
  C4, amended. For an upload whose target category has an empty \<open>allowedFileTypes\<close>,
  the category's own check never rejects the file (the route does not answer with the
  category's file-type error), and the route rejects the upload for its extension,
  with the error of the upload middleware's filter, exactly when the lower-cased
  extension is not in the middleware's list (\<open>ALLOWED_FILE_TYPES\<close>, or the built-in
  defaults).
\<close>

theorem empty_allowedFileTypes_only_global_filter:
  assumes cat: "findById c_id (st_categories s) (ub_category body) = Some c"
    and empty: "allowedFileTypes c = []"
  shows "fst (upload_route env sha256 new_id now u (Some f) rules_ok body s)
           \<noteq> json_error 400 (type_message (file_extension (f_originalname f)) (allowedFileTypes c))
       \<and> (fst (upload_route env sha256 new_id now u (Some f) rules_ok body s)
            = json_error 400 (filter_message env (file_extension (f_originalname f)))
          \<longleftrightarrow> file_extension (f_originalname f) \<notin> set (allowedTypes env))"
  using assms
  by (simp add: upload_route_def uploadSingle_def fileFilter_def filter_message_def
      upload_document_def type_message_def size_message_def json_error_def json_success_def
      Let_def)

theorem empty_allowedFileTypes_only_global_filter_witness:
  "fst (upload_route default_env sample_sha256 ''d1'' 7 (sample_user ''u1'' ''user'' True)
          (Some (sample_file ''notes.txt'')) True (sample_body None) (sample_store [] True {}))
     \<noteq> json_error 400 (type_message ''txt'' [])
   \<and> (fst (upload_route default_env sample_sha256 ''d1'' 7 (sample_user ''u1'' ''user'' True)
          (Some (sample_file ''notes.txt'')) True (sample_body None) (sample_store [] True {}))
        = json_error 400 (filter_message default_env ''txt'')
      \<longleftrightarrow> ''txt'' \<notin> set (allowedTypes default_env))"
proof -
  have ext: "file_extension (f_originalname (sample_file ''notes.txt'')) = ''txt''"
    by (simp add: sample_file_def file_extension_def extname_def last_segment_def
        toLowerCase_def to_lower_char_def upper_letters_def lower_letters_def)
  have cat: "findById c_id (st_categories (sample_store [] True {}))
               (ub_category (sample_body None)) = Some (sample_category ''c1'' [] True)"
    by (simp add: sample_store_def sample_body_def sample_category_def findById_def)
  have empty: "allowedFileTypes (sample_category ''c1'' [] True) = []"
    by (simp add: sample_category_def)
  from empty_allowedFileTypes_only_global_filter [OF cat empty, of default_env sample_sha256
      "''d1''" 7 "sample_user ''u1'' ''user'' True" "sample_file ''notes.txt''" True]
  show ?thesis
    by (simp add: ext empty)
qed

subsection \<open>Approval\<close>

lemmas approval_eval =
  approval_route_def authorize_def approval_rules_ok_def approval_sanitize_def
  approve_document_def document_pre_save_def document_validates_def replace_by_id_def
  findById_def trim_def is_space_def sample_user_def sample_document_def json_error_def
  json_success_def

text \<open>
  C5, as the specification states it, fails: the answer for a document that is not
  pending carries a fixed message, which does not name the document's status. An
  administrator approving an already approved document is answered with
  \<open>Document is not pending approval\<close>, in which \<open>approved\<close> does not occur.
\<close>

theorem not_pending_message_omits_status:
  "fst (approval_route 10 11 (sample_user ''u9'' ''admin'' True) ''d1''
          \<lparr>ab_status = ''approved'', ab_rejectionReason = None\<rparr>
          [sample_document ''d1'' ''u1'' ''approved'' \<lparr>p_read = [], p_write = [], p_delete = []\<rparr>])
     = json_error 400 ''Document is not pending approval''
   \<and> \<not> sublist ''approved'' ''Document is not pending approval''"
  by (simp add: approval_eval sublist_Cons_right)

text \<open>
  C5, amended. An approval or rejection request on a document whose status is not
  \<open>pending\<close> always fails and leaves the documents collection (so the document's status,
  approver, approval time and rejection reason) unchanged: a user who is neither admin
  nor manager is answered 403, a body that breaks the rules 400 \<open>Validation failed\<close>,
  and every other request 400 with the fixed message \<open>Document is not pending approval\<close>.
  Hence the request succeeds only on a pending document.
\<close>

theorem approval_of_non_pending_document:
  assumes found: "findById d_id docs i = Some d"
    and np: "d_status d \<noteq> ''pending''"
  shows "approval_route now save_time u i body docs =
           (if u_role u \<notin> set [''admin'', ''manager'']
            then json_error 403
                   (''User role '' @ u_role u @ '' is not authorized to access this route'')
            else if \<not> approval_rules_ok body then json_error 400 ''Validation failed''
            else json_error 400 ''Document is not pending approval'',
            docs)"
  using assms by (simp add: approval_route_def authorize_def approve_document_def)

theorem approval_of_non_pending_document_witness:
  "approval_route 10 11 (sample_user ''u9'' ''manager'' True) ''d1''
     \<lparr>ab_status = ''rejected'', ab_rejectionReason = Some ''too late''\<rparr>
     [sample_document ''d1'' ''u1'' ''rejected'' \<lparr>p_read = [], p_write = [], p_delete = []\<rparr>]
   = (json_error 400 ''Document is not pending approval'',
      [sample_document ''d1'' ''u1'' ''rejected'' \<lparr>p_read = [], p_write = [], p_delete = []\<rparr>])"
proof -
  let ?d = "sample_document ''d1'' ''u1'' ''rejected'' \<lparr>p_read = [], p_write = [], p_delete = []\<rparr>"
  have found: "findById d_id [?d] ''d1'' = Some ?d"
    by (simp add: findById_def sample_document_def)
  have np: "d_status ?d \<noteq> ''pending''"
    by (simp add: sample_document_def)
  from approval_of_non_pending_document [OF found np, of 10 11
      "sample_user ''u9'' ''manager'' True"
      "\<lparr>ab_status = ''rejected'', ab_rejectionReason = Some ''too late''\<rparr>"]
  show ?thesis
    by (simp add: sample_user_def approval_rules_ok_def trim_def is_space_def)
qed

text \<open>
  C6, as the specification states it, fails: the rules of the route make the reason
  optional. A manager's rejection of a pending document with no reason is answered
  with success; the document becomes \<open>rejected\<close> with approver and time set and its
  rejection reason still unset.
\<close>

theorem rejection_without_reason_succeeds:
  "approval_route 10 11 (sample_user ''u9'' ''manager'' True) ''d1''
     \<lparr>ab_status = ''rejected'', ab_rejectionReason = None\<rparr>
     [sample_document ''d1'' ''u1'' ''pending'' \<lparr>p_read = [], p_write = [], p_delete = []\<rparr>]
   = (json_success 200 ''Document rejected successfully'',
      [(sample_document ''d1'' ''u1'' ''pending'' \<lparr>p_read = [], p_write = [], p_delete = []\<rparr>)
         \<lparr>d_status := ''rejected'', d_approvedBy := Some ''u9'', d_approvedAt := Some 10,
          d_rejectionReason := None\<rparr>])"
  by (simp add: approval_eval)

text \<open>
  C6, amended. A rejection of a pending document does not need a reason: the rules
  accept a body without one. When the route answers a rejection of a pending document
  with success, the stored document has status \<open>rejected\<close>, the acting user as approver
  and the handler's clock reading as approval time; its rejection reason is the
  trimmed reason when that is not empty, and is otherwise left as it was.
\<close>

theorem rejection_of_pending_document:
  assumes found: "findById d_id docs i = Some d"
    and pend: "d_status d = ''pending''"
    and rej: "ab_status body = ''rejected''"
    and ok: "res_success (fst (approval_route now save_time u i body docs))"
  shows "approval_rules_ok \<lparr>ab_status = ''rejected'', ab_rejectionReason = None\<rparr>
     \<and> findById d_id (snd (approval_route now save_time u i body docs)) i
       = Some (d\<lparr>d_status := ''rejected'', d_approvedBy := Some (u_id u),
                 d_approvedAt := Some now,
                 d_rejectionReason :=
                   (case ab_rejectionReason body of
                      None \<Rightarrow> d_rejectionReason d
                    | Some r \<Rightarrow> if trim r = [] then d_rejectionReason d else Some (trim r))\<rparr>)"
proof -
  have key: "d_id d = i"
    using found by (rule findById_key)
  let ?d' = "d\<lparr>d_status := ''rejected'', d_approvedBy := Some (u_id u),
                 d_approvedAt := Some now,
                 d_rejectionReason :=
                   (case ab_rejectionReason body of
                      None \<Rightarrow> d_rejectionReason d
                    | Some r \<Rightarrow> if trim r = [] then d_rejectionReason d else Some (trim r))\<rparr>"
  have id': "d_id ?d' = i"
    using key by simp
  from ok found pend rej
  have "snd (approval_route now save_time u i body docs) = replace_by_id d_id ?d' docs"
    by (auto simp: approval_route_def authorize_def approve_document_def approval_sanitize_def
        document_pre_save_def json_error_def json_success_def Let_def
        split: if_splits option.splits)
  moreover have "findById d_id (replace_by_id d_id ?d' docs) (d_id ?d') = Some ?d'"
    by (rule findById_replace_by_id [where y = d]) (simp add: key found)
  ultimately show ?thesis
    by (simp add: id' approval_rules_ok_def)
qed

theorem rejection_of_pending_document_witness:
  "findById d_id
     (snd (approval_route 10 11 (sample_user ''u9'' ''admin'' True) ''d1''
        \<lparr>ab_status = ''rejected'', ab_rejectionReason = Some '' unsigned ''\<rparr>
        [sample_document ''d1'' ''u1'' ''pending'' \<lparr>p_read = [], p_write = [], p_delete = []\<rparr>]))
     ''d1''
   = Some ((sample_document ''d1'' ''u1'' ''pending'' \<lparr>p_read = [], p_write = [], p_delete = []\<rparr>)
        \<lparr>d_status := ''rejected'', d_approvedBy := Some ''u9'', d_approvedAt := Some 10,
         d_rejectionReason := Some ''unsigned''\<rparr>)"
proof -
  let ?d = "sample_document ''d1'' ''u1'' ''pending'' \<lparr>p_read = [], p_write = [], p_delete = []\<rparr>"
  let ?b = "\<lparr>ab_status = ''rejected'', ab_rejectionReason = Some '' unsigned ''\<rparr>"
  have found: "findById d_id [?d] ''d1'' = Some ?d"
    by (simp add: findById_def sample_document_def)
  have pend: "d_status ?d = ''pending''"
    by (simp add: sample_document_def)
  have rej: "ab_status ?b = ''rejected''"
    by simp
  have ok: "res_success (fst (approval_route 10 11 (sample_user ''u9'' ''admin'' True) ''d1'' ?b [?d]))"
    by (simp add: approval_eval)
  have t: "trim '' unsigned '' = ''unsigned''"
    by (simp add: trim_def is_space_def)
  from rejection_of_pending_document [OF found pend rej ok]
  show ?thesis
    by (simp add: t sample_user_def)
qed

end
